theory Spec2Isabelle
  imports Complex_Main "HOL-Library.Sublist"
begin

section \<open>Contextual quality classifier (etl/clean\_and\_transform.py)\<close>

text \<open>
  \<^verbatim>\<open>InmobiliarioETL.clasificar_calidad\<close> works on a pandas DataFrame with boolean masks.
  Every mask is computed row by row from the row's own cells, so the function is modelled
  on one row. A nullable cell is an \<open>option\<close>: \<open>None\<close> is pandas' missing value
  (NaN, None, \<open>pd.NA\<close>). \<open>VALOR\<close> is a float column, read here as a real number.
\<close>

datatype calidad = OK | ADVERTENCIA | ERROR

datatype tipo_error =
    DINAMICA_INVALIDA
  | YEAR_INVALIDO
  | GEOGRAFIA_INVALIDA
  | MERCADO_SIN_VALOR
  | VALOR_IRRISIORIO
  | VALOR_EXTREMO_DIGITACION
  | TIPO_PREDIO_INVALIDO

text \<open>The columns of a typed row that the classifier reads.\<close>

record registro =
  Dinamica_Inmobiliaria :: "int option"
  YEAR_RADICA :: "int option"
  DEPARTAMENTO :: "string option"
  MUNICIPIO :: "string option"
  NOMBRE_NATUJUR :: "string option"
  VALOR :: "real option"
  TIPO_PREDIO_ZONA :: "string option"

text \<open>The four columns the classifier adds.\<close>

record clasificacion =
  calidad_datos :: calidad
  tipo_error :: "tipo_error option"
  es_mercado_valido :: bool
  valor_valido :: bool

subsection \<open>String search\<close>

text \<open>
  \<^verbatim>\<open>str.contains(pat, case=False, na=False)\<close> with a pattern that is an alternation of
  literal words: some word occurs in the cell, letters compared without case. Letters
  are the ASCII ones; a missing cell gives the value of \<open>na\<close>.
\<close>

definition upper_char :: "char \<Rightarrow> char" where
  "upper_char c =
     (case map_of (zip ''abcdefghijklmnopqrstuvwxyz'' ''ABCDEFGHIJKLMNOPQRSTUVWXYZ'') c of
        None \<Rightarrow> c
      | Some u \<Rightarrow> u)"

definition upper :: "string \<Rightarrow> string" where
  "upper s = map upper_char s"

fun contains :: "string \<Rightarrow> string \<Rightarrow> bool" where
  "contains [] pat = (pat = [])"
| "contains (c # cs) pat = (prefix pat (c # cs) \<or> contains cs pat)"

definition contains_any_nocase :: "string list \<Rightarrow> bool \<Rightarrow> string option \<Rightarrow> bool" where
  "contains_any_nocase pats na cell =
     (case cell of
        None \<Rightarrow> na
      | Some s \<Rightarrow> list_ex (\<lambda>p. contains (upper s) (upper p)) pats)"

subsection \<open>Comparisons with a missing operand\<close>

text \<open>
  A comparison of a float column with a number is False on NaN. On the nullable integer
  column \<open>YEAR_RADICA\<close> it is \<open>pd.NA\<close>, \<open>NA | NA\<close> is \<open>NA\<close>, and
  \<^verbatim>\<open>df.loc[mask, col] = v\<close> leaves alone the rows whose mask is \<open>NA\<close>: a missing
  operand never selects the row.
\<close>

definition lt :: "('a::linorder) option \<Rightarrow> 'a \<Rightarrow> bool" where
  "lt x c = (case x of None \<Rightarrow> False | Some v \<Rightarrow> v < c)"

definition gt :: "('a::linorder) option \<Rightarrow> 'a \<Rightarrow> bool" where
  "gt x c = (case x of None \<Rightarrow> False | Some v \<Rightarrow> c < v)"

definition le :: "('a::linorder) option \<Rightarrow> 'a \<Rightarrow> bool" where
  "le x c = (case x of None \<Rightarrow> False | Some v \<Rightarrow> v \<le> c)"

definition ge :: "('a::linorder) option \<Rightarrow> 'a \<Rightarrow> bool" where
  "ge x c = (case x of None \<Rightarrow> False | Some v \<Rightarrow> c \<le> v)"

definition eq :: "'a option \<Rightarrow> 'a \<Rightarrow> bool" where
  "eq x c = (case x of None \<Rightarrow> False | Some v \<Rightarrow> v = c)"

definition isna :: "'a option \<Rightarrow> bool" where
  "isna x = (x = None)"

subsection \<open>The rules, in the order of the source\<close>

definition inicial :: clasificacion where
  "inicial = \<lparr>calidad_datos = OK, tipo_error = None,
              es_mercado_valido = False, valor_valido = False\<rparr>"

text \<open>\<^verbatim>\<open>df.loc[mask, 'calidad_datos'] = q; df.loc[mask, 'tipo_error'] = t\<close>\<close>

definition marcar :: "bool \<Rightarrow> calidad \<Rightarrow> tipo_error \<Rightarrow> clasificacion \<Rightarrow> clasificacion" where
  "marcar sel q t c = (if sel then c\<lparr>calidad_datos := q, tipo_error := Some t\<rparr> else c)"

definition mask_din_invalido :: "registro \<Rightarrow> bool" where
  "mask_din_invalido r = isna (Dinamica_Inmobiliaria r)"

definition mask_year_invalido :: "registro \<Rightarrow> bool" where
  "mask_year_invalido r = (lt (YEAR_RADICA r) 2000 \<or> gt (YEAR_RADICA r) 2025)"

definition mask_geo_invalido :: "registro \<Rightarrow> bool" where
  "mask_geo_invalido r = (isna (DEPARTAMENTO r) \<or> isna (MUNICIPIO r))"

definition actos_con_valor :: "registro \<Rightarrow> bool" where
  "actos_con_valor r =
     contains_any_nocase [''COMPRAVENTA'', ''HIPOTECA'', ''VENTA'', ''MUTUO''] False
       (NOMBRE_NATUJUR r)"

definition mask_mercado_sin_valor :: "registro \<Rightarrow> clasificacion \<Rightarrow> bool" where
  "mask_mercado_sin_valor r c =
     (es_mercado_valido c \<and> (isna (VALOR r) \<or> eq (VALOR r) 0))"

definition mask_compraventa_irrisiorio :: "registro \<Rightarrow> clasificacion \<Rightarrow> bool" where
  "mask_compraventa_irrisiorio r c =
     (actos_con_valor r \<and> gt (VALOR r) 0 \<and> lt (VALOR r) 1000000 \<and> calidad_datos c = OK)"

definition mask_valor_extremo :: "registro \<Rightarrow> bool" where
  "mask_valor_extremo r = gt (VALOR r) 10000000000"

definition mask_valor_valido :: "registro \<Rightarrow> clasificacion \<Rightarrow> bool" where
  "mask_valor_valido r c =
     (ge (VALOR r) 1000000 \<and> le (VALOR r) 10000000000 \<and> es_mercado_valido c)"

definition valores_validos_tipo :: "string list" where
  "valores_validos_tipo = [''URBANO'', ''RURAL'', ''SIN INFORMACION'', ''MIXTO'']"

definition mask_tipo_invalido :: "registro \<Rightarrow> bool" where
  "mask_tipo_invalido r =
     (case TIPO_PREDIO_ZONA r of
        None \<Rightarrow> True
      | Some z \<Rightarrow> z \<notin> set valores_validos_tipo)"

definition regla_tipo_predio :: "registro \<Rightarrow> clasificacion \<Rightarrow> clasificacion" where
  "regla_tipo_predio r c =
     (let c1 = (if mask_tipo_invalido r \<and> calidad_datos c = OK
                then c\<lparr>calidad_datos := ADVERTENCIA\<rparr> else c)
      in if mask_tipo_invalido r \<and> isna (tipo_error c1)
         then c1\<lparr>tipo_error := Some TIPO_PREDIO_INVALIDO\<rparr> else c1)"

definition clasificar_calidad :: "registro \<Rightarrow> clasificacion" where
  "clasificar_calidad r =
     (let c1 = marcar (mask_din_invalido r) ERROR DINAMICA_INVALIDA inicial;
          c2 = marcar (mask_year_invalido r) ERROR YEAR_INVALIDO c1;
          c3 = marcar (mask_geo_invalido r) ERROR GEOGRAFIA_INVALIDA c2;
          c4 = c3\<lparr>es_mercado_valido := eq (Dinamica_Inmobiliaria r) 1\<rparr>;
          c5 = marcar (mask_mercado_sin_valor r c4) ERROR MERCADO_SIN_VALOR c4;
          c6 = marcar (mask_compraventa_irrisiorio r c5) ADVERTENCIA VALOR_IRRISIORIO c5;
          c7 = marcar (mask_valor_extremo r) ERROR VALOR_EXTREMO_DIGITACION c6;
          c8 = c7\<lparr>valor_valido := mask_valor_valido r c7\<rparr>
      in regla_tipo_predio r c8)"

text \<open>The masks of \<^verbatim>\<open>crear_datasets\<close> that select the output partitions.\<close>

definition mask_limpio :: "clasificacion \<Rightarrow> bool" where
  "mask_limpio c = (calidad_datos c = OK)"

definition mask_mercado :: "clasificacion \<Rightarrow> bool" where
  "mask_mercado c = (es_mercado_valido c \<and> calidad_datos c \<noteq> ERROR)"

definition mask_ml :: "clasificacion \<Rightarrow> bool" where
  "mask_ml c = (es_mercado_valido c \<and> valor_valido c \<and> calidad_datos c = OK)"

definition mask_error :: "clasificacion \<Rightarrow> bool" where
  "mask_error c = (calidad_datos c = ERROR)"

definition mask_adv :: "clasificacion \<Rightarrow> bool" where
  "mask_adv c = (calidad_datos c = ADVERTENCIA)"

section \<open>Type normalisation of the categorical columns (validar\_y\_tipar, step 7 and 8)\<close>

text \<open>
  A raw cell of an object column: Python \<open>None\<close>, the float \<open>nan\<close>, a string or an
  integer. \<^verbatim>\<open>astype(str)\<close> renders every cell with \<open>str\<close>, the missing ones too:
  \<open>None\<close> becomes the text \<open>None\<close> and \<open>nan\<close> the text \<open>nan\<close>.
\<close>

datatype crudo = Nulo | NaN | Texto string | Entero int

fun digitos :: "nat \<Rightarrow> string" where
  "digitos n =
     (if n < 10 then [''0123456789'' ! n]
      else digitos (n div 10) @ [''0123456789'' ! (n mod 10)])"

definition str_int :: "int \<Rightarrow> string" where
  "str_int i = (if i < 0 then CHR ''-'' # digitos (nat (- i)) else digitos (nat i))"

fun astype_str :: "crudo \<Rightarrow> string" where
  "astype_str Nulo = ''None''"
| "astype_str NaN = ''nan''"
| "astype_str (Texto s) = s"
| "astype_str (Entero i) = str_int i"

text \<open>\<^verbatim>\<open>str.strip()\<close>: leading and trailing white space (the ASCII one) is removed.\<close>

definition is_space :: "char \<Rightarrow> bool" where
  "is_space c =
     (c \<in> set [CHR 0x09, CHR 0x0A, CHR 0x0B, CHR 0x0C, CHR 0x0D,
                CHR 0x1C, CHR 0x1D, CHR 0x1E, CHR 0x1F, CHR '' ''])"

definition strip :: "string \<Rightarrow> string" where
  "strip s = rev (dropWhile is_space (rev (dropWhile is_space s)))"

text \<open>
  \<^verbatim>\<open>df[col] = df[col].astype(str).str.strip().str.upper()\<close>, then
  \<^verbatim>\<open>df[col] = df[col].replace('NONE', np.nan)\<close>: a cell equal to the text \<open>NONE\<close> becomes
  missing, every other cell keeps its text.
\<close>

definition limpiar_categorica :: "crudo \<Rightarrow> string option" where
  "limpiar_categorica c =
     (let s = upper (strip (astype_str c))
      in if s = ''NONE'' then None else Some s)"

text \<open>\<^verbatim>\<open>df.loc[(df['ORIP'] < 1) | (df['ORIP'] > 999), 'ORIP'] = np.nan\<close>\<close>

definition validar_orip :: "real option \<Rightarrow> real option" where
  "validar_orip x = (if lt x 1 \<or> gt x 999 then None else x)"

section \<open>Composite key (crear\_composite\_key)\<close>

text \<open>The five raw columns the key is built from, one row.\<close>

record fila_clave =
  DIVIPOLA :: crudo
  MATRICULA :: crudo
  NUM_ANOTACION :: crudo
  COD_NATUJUR :: crudo
  YEAR_RADICA_crudo :: crudo

text \<open>
  \<^verbatim>\<open>df[c].astype(str).fillna(d)\<close>: after \<^verbatim>\<open>astype(str)\<close> no cell is missing, so
  \<^verbatim>\<open>fillna\<close> has nothing to fill and the default \<open>d\<close> is never used.
\<close>

definition transaction_id :: "fila_clave \<Rightarrow> string" where
  "transaction_id r =
     astype_str (DIVIPOLA r) @ ''_'' @ astype_str (MATRICULA r) @ ''_'' @
     astype_str (NUM_ANOTACION r) @ ''_'' @ astype_str (COD_NATUJUR r) @ ''_'' @
     astype_str (YEAR_RADICA_crudo r)"

text \<open>\<^verbatim>\<open>Series.nunique()\<close>: the number of distinct values.\<close>

definition nunique :: "'a list \<Rightarrow> nat" where
  "nunique xs = length (remdups xs)"

text \<open>
  The function returns the frame with the new column \<open>transaction_id\<close> (every row paired
  with its key, in the order of the input) and writes one number to the log, the number
  of distinct keys. These are its only outputs.
\<close>

definition crear_composite_key :: "fila_clave list \<Rightarrow> (fila_clave \<times> string) list \<times> nat" where
  "crear_composite_key df =
     (let ids = map transaction_id df
      in (zip df ids, nunique ids))"

text \<open>
  The number of duplicate-key reports the specification asks for: the rows whose key
  has already occurred in the batch.
\<close>

definition duplicate_keys :: "string list \<Rightarrow> nat" where
  "duplicate_keys ids = length ids - card (set ids)"

section \<open>Excessive activity (detectar\_anomalias\_negocio, anomaly 1)\<close>

text \<open>
  The function reads the columns \<open>MATRICULA\<close> and \<open>YEAR_RADICA\<close>; the batch is given as
  the list of their pairs, \<^verbatim>\<open>zip(df['MATRICULA'], df['YEAR_RADICA'])\<close>.
  \<^verbatim>\<open>df.groupby([...]).size().to_dict()\<close> counts the rows of every pair; \<open>groupby\<close> leaves
  out the rows with a missing key component, so such a pair is no key of the dictionary.
\<close>

type_synonym par = "string option \<times> int option"

definition contar :: "par \<Rightarrow> (par \<rightharpoonup> nat) \<Rightarrow> (par \<rightharpoonup> nat)" where
  "contar k d =
     (if isna (fst k) \<or> isna (snd k) then d
      else d(k \<mapsto> (case d k of None \<Rightarrow> 1 | Some c \<Rightarrow> Suc c)))"

definition anotaciones_dict :: "par list \<Rightarrow> (par \<rightharpoonup> nat)" where
  "anotaciones_dict keys = fold contar keys Map.empty"

text \<open>\<^verbatim>\<open>[anotaciones_dict.get(k, 0) for k in keys]\<close>\<close>

definition anotaciones_por_anio :: "par list \<Rightarrow> nat list" where
  "anotaciones_por_anio keys =
     map (\<lambda>k. case anotaciones_dict keys k of None \<Rightarrow> 0 | Some c \<Rightarrow> c) keys"

definition flag_actividad_excesiva :: "par list \<Rightarrow> bool list" where
  "flag_actividad_excesiva keys = map (\<lambda>c. 150 < c) (anotaciones_por_anio keys)"

text \<open>
  The specification's count: the records of the batch that have the same
  (property identifier, filing year) pair as the given one.
\<close>

definition registros_mismo_par :: "par list \<Rightarrow> par \<Rightarrow> nat" where
  "registros_mismo_par keys k = length (filter (\<lambda>k'. k' = k) keys)"

section \<open>Ensemble scoring (ml/apply\_models.py, ml/train\_propsafe.py)\<close>

text \<open>
  Scores are numpy floats, read here as real numbers; NaN is \<open>None\<close>. The two models are
  scikit-learn objects and follow scikit-learn's convention: the lower the raw output,
  the more abnormal the record, negative outputs being the outliers. Their methods
  accept a two-dimensional array with at least one row and raise \<open>ValueError\<close> on any
  other argument.
\<close>

datatype py_error = KeyError string | AttributeError | ValueError

text \<open>\<^verbatim>\<open>a.min()\<close> and \<open>a.max()\<close> of a non-empty array (they are not called on an empty one).\<close>

fun np_min :: "real list \<Rightarrow> real" where
  "np_min (x # xs) = fold min xs x"

fun np_max :: "real list \<Rightarrow> real" where
  "np_max (x # xs) = fold max xs x"

text \<open>
  \<^verbatim>\<open>(s - s.min()) / (s.max() - s.min())\<close>, with no test of the denominator. When the
  maximum equals the minimum every entry equals them, every numerator is 0 as well, and
  numpy's \<open>0.0 / 0.0\<close> is NaN (with a warning, no exception).
\<close>

definition min_max :: "real list \<Rightarrow> real option list" where
  "min_max s =
     map (\<lambda>x. if np_max s - np_min s = 0 then None
              else Some ((x - np_min s) / (np_max s - np_min s))) s"

text \<open>\<^verbatim>\<open>1 - x\<close> and \<^verbatim>\<open>0.6 * a + 0.4 * b\<close> on floats: NaN in, NaN out.\<close>

definition invertir :: "real option \<Rightarrow> real option" where
  "invertir x = map_option (\<lambda>v. 1 - v) x"

definition ponderar :: "real option \<Rightarrow> real option \<Rightarrow> real option" where
  "ponderar a b =
     (case a of None \<Rightarrow> None
      | Some x \<Rightarrow> (case b of None \<Rightarrow> None | Some y \<Rightarrow> Some (0.6 * x + 0.4 * y)))"

text \<open>
  A numpy array of one or of two dimensions. \<^verbatim>\<open>model.score_samples(X)\<close> of a fitted
  model, given as the function \<open>m\<close> from the rows of a two-dimensional array to their
  scores: scikit-learn's input check refuses a one-dimensional array and an array
  without rows.
\<close>

datatype ndarray = Vector "real list" | Matrix "real list list"

fun score_samples :: "(real list list \<Rightarrow> real list) \<Rightarrow> ndarray \<Rightarrow> py_error + real list" where
  "score_samples m (Vector v) = Inl ValueError"
| "score_samples m (Matrix rows) = (if rows = [] then Inl ValueError else Inr (m rows))"

text \<open>
  \<^verbatim>\<open>X, _ = engineer.transform(df)\<close>. \<^verbatim>\<open>FeatureEngineer.transform\<close> of
  ml/feature\_engineering.py returns one two-dimensional array, a row per record, not a
  pair. Unpacking it into two names iterates over its rows: it raises \<open>ValueError\<close>
  unless the array has exactly two rows, and then \<open>X\<close> is the first row, a
  one-dimensional array.
\<close>

fun unpack2 :: "real list list \<Rightarrow> py_error + (ndarray \<times> ndarray)" where
  "unpack2 [a, b] = Inr (Vector a, Vector b)"
| "unpack2 _ = Inl ValueError"

text \<open>
  \<^verbatim>\<open>score_batch\<close> of apply\_models.py. The arguments are the \<^verbatim>\<open>score_samples\<close>
  functions of the two models and the array that \<^verbatim>\<open>engineer.transform(df)\<close> returns;
  the result is \<^verbatim>\<open>(ensemble_scores, is_anomaly)\<close>.
\<close>

definition score_batch ::
  "(real list list \<Rightarrow> real list) \<Rightarrow> (real list list \<Rightarrow> real list) \<Rightarrow> real list list \<Rightarrow>
     py_error + (real option list \<times> bool list)" where
  "score_batch iso_forest lof transformed =
     (case unpack2 transformed of
        Inl e \<Rightarrow> Inl e
      | Inr (X, _) \<Rightarrow>
          (case score_samples iso_forest X of
             Inl e \<Rightarrow> Inl e
           | Inr if_scores \<Rightarrow>
               (case score_samples lof X of
                  Inl e \<Rightarrow> Inl e
                | Inr lof_scores \<Rightarrow>
                    (let if_norm = map invertir (min_max if_scores);
                         lof_norm = map invertir (min_max lof_scores);
                         ensemble_scores = map2 ponderar if_norm lof_norm;
                         is_anomaly = map (\<lambda>e. ge e 0.5) ensemble_scores
                     in Inr (ensemble_scores, is_anomaly)))))"

text \<open>
  \<^verbatim>\<open>np.percentile(scores, q)\<close> with numpy's default linear interpolation: the virtual
  index \<open>q / 100 * (n - 1)\<close> in the sorted array, interpolated between its two
  neighbours.
\<close>

definition percentile :: "real list \<Rightarrow> real \<Rightarrow> real" where
  "percentile a q =
     (let s = sort a;
          h = q / 100 * real (length a - 1);
          lo = nat \<lfloor>h\<rfloor>;
          hi = min (lo + 1) (length a - 1)
      in s ! lo + (h - real lo) * (s ! hi - s ! lo))"

text \<open>\<^verbatim>\<open>PropSafeAnomalyDetector._normalize_scores\<close>\<close>

definition normalize_scores :: "real list \<Rightarrow> real list" where
  "normalize_scores scores =
     (let p5 = percentile scores 5;
          p95 = percentile scores 95;
          scores_clipped = map (\<lambda>x. min (max x p5) p95) scores;
          score_min = np_min scores_clipped;
          score_max = np_max scores_clipped
      in if score_max - score_min > 0
         then map (\<lambda>x. (x - score_min) / (score_max - score_min)) scores_clipped
         else map (\<lambda>x. 0) scores)"

text \<open>\<^verbatim>\<open>PropSafeAnomalyDetector._classify_risk\<close>: 0 normal, 1 suspicious, 2 high risk.\<close>

definition classify_risk :: "real list \<Rightarrow> nat list" where
  "classify_risk scores = map (\<lambda>s. if 0.7 \<le> s then 2 else if 0.4 \<le> s then 1 else 0) scores"

text \<open>
  \<^verbatim>\<open>PropSafeAnomalyDetector.predict\<close>: the arguments are the flag \<open>is_fitted\<close> and,
  for every record of the batch, the pair (\<^verbatim>\<open>iso_forest.decision_function(X)\<close>,
  \<^verbatim>\<open>lof.decision_function(X)\<close>) of the outputs of the two models; on an empty batch
  the scaler raises \<open>ValueError\<close>. The two arrays of class predictions that the
  function passes through from scikit-learn are left out.
\<close>

record prediccion =
  anomaly_scores :: "real list"
  classifications :: "nat list"
  if_scores :: "real list"
  lof_scores :: "real list"

definition predict :: "bool \<Rightarrow> (real \<times> real) list \<Rightarrow> py_error + prediccion" where
  "predict is_fitted X =
     (if \<not> is_fitted then Inl ValueError
      else if X = [] then Inl ValueError
      else
        let if_raw = map fst X;
            lof_raw = map (\<lambda>d. - snd d) X;
            if_scores_norm = normalize_scores if_raw;
            lof_scores_norm = normalize_scores lof_raw;
            ensemble_scores = map2 (\<lambda>a b. 0.6 * a + 0.4 * b) if_scores_norm lof_scores_norm
        in Inr \<lparr>anomaly_scores = ensemble_scores,
                classifications = classify_risk ensemble_scores,
                if_scores = if_scores_norm,
                lof_scores = lof_scores_norm\<rparr>)"

section \<open>Feature engineering (ml/feature\_engineering\_propsafe.py)\<close>

text \<open>
  The input frame of \<^verbatim>\<open>create_features\<close>, column by column. A column that the
  schema of the batch does not have is \<open>None\<close>; a column it has is the list of its
  cells, a missing cell being \<open>None\<close>. The columns are typed as the pipeline writes
  them: numbers, truth values, texts. \<open>FECHA_RADICA_TEXTO\<close> is given as it is after
  \<^verbatim>\<open>pd.to_datetime(..., format='%d/%m/%Y', errors='coerce')\<close>, each timestamp by the
  numbers the function reads from it, and \<open>COD_NATUJUR\<close> as it is after
  \<^verbatim>\<open>pd.to_numeric(..., errors='coerce')\<close>.
\<close>

record marca_tiempo =
  dt_year :: int
  dt_month :: int
  dt_quarter :: int
  dt_dayofweek :: int
  dias_desde_2015 :: int

record frame =
  df_transaction_id :: "string list option"
  df_FECHA_RADICA_TEXTO :: "marca_tiempo option list option"
  df_YEAR_RADICA :: "real option list option"
  df_VALOR :: "real option list option"
  df_anotaciones_por_anio :: "real option list option"
  df_TIPO_PREDIO_ZONA :: "string option list option"
  df_CATEGORIA_RURALIDAD :: "real option list option"
  df_flag_actividad_excesiva :: "bool option list option"
  df_flag_geo_discrepancia :: "bool option list option"
  df_total_flags_anomalia :: "real option list option"
  df_TIENE_VALOR :: "real option list option"
  df_COD_NATUJUR :: "real option list option"
  df_COUNT_A :: "real option list option"
  df_COUNT_DE :: "real option list option"
  df_PREDIOS_NUEVOS :: "real option list option"

text \<open>A feature column before the final \<^verbatim>\<open>fillna(0)\<close>: its name and its cells.\<close>

type_synonym columna = "string \<times> real option list"

subsection \<open>Operations on cells\<close>

definition fillna :: "'a \<Rightarrow> 'a option \<Rightarrow> 'a" where
  "fillna d c = (case c of None \<Rightarrow> d | Some v \<Rightarrow> v)"

text \<open>\<^verbatim>\<open>.astype(int)\<close> of a truth value and of a float (truncation towards zero).\<close>

definition bool_int :: "bool \<Rightarrow> real" where
  "bool_int b = (if b then 1 else 0)"

definition astype_int :: "real \<Rightarrow> real" where
  "astype_int x = (if x < 0 then of_int \<lceil>x\<rceil> else of_int \<lfloor>x\<rfloor>)"

text \<open>
  \<^verbatim>\<open>np.log1p\<close>: NaN below \<open>-1\<close>. At \<open>-1\<close> numpy gives minus infinity, which has no
  value here and is read as NaN as well; the columns it is applied to are not negative
  in the pipeline.
\<close>

definition log1p :: "real \<Rightarrow> real option" where
  "log1p x = (if -1 < x then Some (ln (1 + x)) else None)"

text \<open>
  \<^verbatim>\<open>str.contains(pat, na=v)\<close> with a pattern that is an alternation of literal words,
  letters compared as they are.
\<close>

definition str_contains :: "string list \<Rightarrow> bool \<Rightarrow> string option \<Rightarrow> bool" where
  "str_contains pats na cell =
     (case cell of None \<Rightarrow> na | Some s \<Rightarrow> list_ex (\<lambda>p. contains s p) pats)"

text \<open>A constant assigned to a column is broadcast to every row of the feature frame.\<close>

definition constante :: "nat \<Rightarrow> string \<Rightarrow> real \<Rightarrow> columna" where
  "constante n nombre v = (nombre, replicate n (Some v))"

subsection \<open>The groups of features, in the order of the source\<close>

definition features_temporales :: "nat \<Rightarrow> frame \<Rightarrow> columna list" where
  "features_temporales n df =
     (case df_FECHA_RADICA_TEXTO df of
        Some fecha \<Rightarrow>
          [(''year'', map (map_option (\<lambda>t. real_of_int (dt_year t))) fecha),
           (''month'', map (map_option (\<lambda>t. real_of_int (dt_month t))) fecha),
           (''quarter'', map (map_option (\<lambda>t. real_of_int (dt_quarter t))) fecha),
           (''day_of_week'', map (map_option (\<lambda>t. real_of_int (dt_dayofweek t))) fecha),
           (''is_weekend'',
              map (\<lambda>c. Some (bool_int (ge (map_option (\<lambda>t. real_of_int (dt_dayofweek t)) c) 5)))
                fecha),
           (''days_since_2015'',
              map (map_option (\<lambda>t. real_of_int (dias_desde_2015 t))) fecha)]
      | None \<Rightarrow>
          (case df_YEAR_RADICA df of
             Some year \<Rightarrow>
               [(''year'', year),
                constante n ''month'' 6,
                constante n ''quarter'' 2,
                constante n ''day_of_week'' 3,
                constante n ''is_weekend'' 0,
                (''days_since_2015'', map (map_option (\<lambda>y. (y - 2015) * 365)) year)]
           | None \<Rightarrow> []))"

definition features_valor :: "real option list \<Rightarrow> columna list" where
  "features_valor valor =
     (let valor_acto = map (fillna 0) valor
      in [(''valor_acto'', map Some valor_acto),
          (''log_valor'', map log1p valor_acto),
          (''valor_millones'', map (\<lambda>v. Some (v / 1000000)) valor_acto),
          (''valor_miles_millones'', map (\<lambda>v. Some (v / 1000000000)) valor_acto),
          (''valor_bajo'', map (\<lambda>v. Some (bool_int (v < 50000000))) valor_acto),
          (''valor_medio'',
             map (\<lambda>v. Some (bool_int (50000000 \<le> v \<and> v < 500000000))) valor_acto),
          (''valor_alto'', map (\<lambda>v. Some (bool_int (500000000 \<le> v))) valor_acto)])"

definition features_areas :: "nat \<Rightarrow> columna list" where
  "features_areas n =
     [constante n ''area_terreno'' 0,
      constante n ''area_construida'' 0,
      constante n ''area_total'' 0,
      constante n ''log_area_terreno'' 0,
      constante n ''log_area_construida'' 0,
      constante n ''ratio_construccion'' 0,
      constante n ''valor_m2_terreno'' 0,
      constante n ''valor_m2_construida'' 0]"

definition features_actividad :: "nat \<Rightarrow> frame \<Rightarrow> columna list" where
  "features_actividad n df =
     (case df_anotaciones_por_anio df of
        Some a \<Rightarrow>
          (let anot = map (fillna 1) a
           in [(''anotaciones_por_anio'', map Some anot),
               (''log_anotaciones'', map log1p anot),
               (''actividad_alta'', map (\<lambda>v. Some (bool_int (10 < v))) anot)])
      | None \<Rightarrow>
          [constante n ''anotaciones_por_anio'' 1,
           constante n ''log_anotaciones'' 0,
           constante n ''actividad_alta'' 0])"

definition features_geograficas :: "nat \<Rightarrow> frame \<Rightarrow> columna list" where
  "features_geograficas n df =
     (case df_TIPO_PREDIO_ZONA df of
        Some zona \<Rightarrow>
          [(''es_urbano'', map (\<lambda>c. Some (bool_int (str_contains [''URBANO''] False c))) zona),
           (''es_rural'', map (\<lambda>c. Some (bool_int (str_contains [''RURAL''] False c))) zona),
           (''sin_zona'',
              map (\<lambda>c. Some (bool_int (\<not> str_contains [''URBANO'', ''RURAL''] True c))) zona)]
      | None \<Rightarrow>
          (case df_CATEGORIA_RURALIDAD df of
             Some cat \<Rightarrow>
               [(''es_urbano'', map (\<lambda>c. Some (bool_int (eq c 1))) cat),
                (''es_rural'', map (\<lambda>c. Some (bool_int (eq c 2 \<or> eq c 3))) cat),
                (''sin_zona'', map (\<lambda>c. Some (bool_int (isna c))) cat)]
           | None \<Rightarrow>
               [constante n ''es_urbano'' 0,
                constante n ''es_rural'' 0,
                constante n ''sin_zona'' 1]))"

definition features_tipo_predio :: "nat \<Rightarrow> frame \<Rightarrow> columna list" where
  "features_tipo_predio n df =
     (case df_TIPO_PREDIO_ZONA df of
        Some zona \<Rightarrow>
          [(''predio_nph'', map (\<lambda>c. Some (bool_int (str_contains [''NPH''] False c))) zona),
           (''predio_matriz'',
              map (\<lambda>c. Some (bool_int (str_contains [''MATRIZ''] False c))) zona),
           (''predio_matriz_nph'',
              map (\<lambda>c. Some (bool_int (str_contains [''MATRIZ NPH''] False c))) zona)]
      | None \<Rightarrow>
          [constante n ''predio_nph'' 0,
           constante n ''predio_matriz'' 0,
           constante n ''predio_matriz_nph'' 0])"

text \<open>
  \<^verbatim>\<open>df.get(col, d).fillna(v).astype(int)\<close>: when the column is absent \<^verbatim>\<open>df.get\<close>
  returns the default \<open>d\<close>, a Python \<open>int\<close>, and calling \<open>fillna\<close> on it raises
  \<open>AttributeError\<close>.
\<close>

definition get_fillna_int :: "string \<Rightarrow> real option list option \<Rightarrow> real \<Rightarrow> py_error + columna" where
  "get_fillna_int nombre col v =
     (case col of
        None \<Rightarrow> Inl AttributeError
      | Some cs \<Rightarrow> Inr (nombre, map (\<lambda>c. Some (astype_int (fillna v c))) cs))"

definition get_fillna_flag :: "string \<Rightarrow> bool option list option \<Rightarrow> py_error + columna" where
  "get_fillna_flag nombre col =
     (case col of
        None \<Rightarrow> Inl AttributeError
      | Some cs \<Rightarrow> Inr (nombre, map (\<lambda>c. Some (bool_int (fillna False c))) cs))"

text \<open>The first error of a sequence of steps is the error of the sequence.\<close>

fun en_orden :: "(py_error + columna) list \<Rightarrow> py_error + columna list" where
  "en_orden [] = Inr []"
| "en_orden (Inl e # _) = Inl e"
| "en_orden (Inr c # rest) =
     (case en_orden rest of Inl e \<Rightarrow> Inl e | Inr cs \<Rightarrow> Inr (c # cs))"

definition features_flags :: "frame \<Rightarrow> py_error + columna list" where
  "features_flags df =
     en_orden
       [get_fillna_flag ''flag_actividad_excesiva'' (df_flag_actividad_excesiva df),
        get_fillna_flag ''flag_geo_discrepancia'' (df_flag_geo_discrepancia df),
        get_fillna_int ''total_flags_anomalia'' (df_total_flags_anomalia df) 0,
        get_fillna_int ''tiene_valor'' (df_TIENE_VALOR df) 1]"

definition features_naturaleza :: "nat \<Rightarrow> frame \<Rightarrow> columna list" where
  "features_naturaleza n df =
     (case df_COD_NATUJUR df of
        Some cod \<Rightarrow>
          (let num = map (fillna 0) cod
           in [(''cod_naturaleza_num'', map Some num),
               (''cod_naturaleza_grupo'',
                  map (\<lambda>v. Some (astype_int (of_int \<lfloor>v / 100\<rfloor>))) num)])
      | None \<Rightarrow>
          [constante n ''cod_naturaleza_num'' 0,
           constante n ''cod_naturaleza_grupo'' 0])"

definition features_counts :: "frame \<Rightarrow> py_error + columna list" where
  "features_counts df =
     en_orden
       [get_fillna_int ''count_a'' (df_COUNT_A df) 0,
        get_fillna_int ''count_de'' (df_COUNT_DE df) 0,
        get_fillna_int ''predios_nuevos'' (df_PREDIOS_NUEVOS df) 0]"

subsection \<open>The function\<close>

text \<open>
  The result: the column \<open>transaction_id\<close> and the numeric feature columns, in the
  order they are created, after the final \<^verbatim>\<open>features.fillna(0)\<close>.
  \<^verbatim>\<open>df['transaction_id']\<close> and \<^verbatim>\<open>df['VALOR']\<close> raise \<open>KeyError\<close> when the column is
  absent.
\<close>

record features =
  transaction_ids :: "string list"
  columnas :: "(string \<times> real list) list"

definition sanear :: "columna \<Rightarrow> string \<times> real list" where
  "sanear c = (fst c, map (fillna 0) (snd c))"

definition create_features :: "frame \<Rightarrow> py_error + features" where
  "create_features df =
     (case df_transaction_id df of
        None \<Rightarrow> Inl (KeyError ''transaction_id'')
      | Some ids \<Rightarrow>
          (let n = length ids;
               temporales = features_temporales n df
           in case df_VALOR df of
                None \<Rightarrow> Inl (KeyError ''VALOR'')
              | Some valor \<Rightarrow>
                  (let previas = temporales @ features_valor valor @ features_areas n @
                         features_actividad n df @ features_geograficas n df @
                         features_tipo_predio n df
                   in case features_flags df of
                        Inl e \<Rightarrow> Inl e
                      | Inr flags \<Rightarrow>
                          (let naturaleza = features_naturaleza n df
                           in case features_counts df of
                                Inl e \<Rightarrow> Inl e
                              | Inr counts \<Rightarrow>
                                  Inr \<lparr>transaction_ids = ids,
                                       columnas =
                                         map sanear
                                           (previas @ flags @ naturaleza @ counts)\<rparr>))))"

text \<open>
  A frame is well formed when all the columns it has have the same number of rows,
  \<open>n\<close>.
\<close>

definition filas :: "nat \<Rightarrow> 'a list option \<Rightarrow> bool" where
  "filas n col = (case col of None \<Rightarrow> True | Some cs \<Rightarrow> length cs = n)"

definition bien_formado :: "nat \<Rightarrow> frame \<Rightarrow> bool" where
  "bien_formado n df =
     (filas n (df_transaction_id df) \<and> filas n (df_FECHA_RADICA_TEXTO df) \<and>
      filas n (df_YEAR_RADICA df) \<and> filas n (df_VALOR df) \<and>
      filas n (df_anotaciones_por_anio df) \<and> filas n (df_TIPO_PREDIO_ZONA df) \<and>
      filas n (df_CATEGORIA_RURALIDAD df) \<and> filas n (df_flag_actividad_excesiva df) \<and>
      filas n (df_flag_geo_discrepancia df) \<and> filas n (df_total_flags_anomalia df) \<and>
      filas n (df_TIENE_VALOR df) \<and> filas n (df_COD_NATUJUR df) \<and>
      filas n (df_COUNT_A df) \<and> filas n (df_COUNT_DE df) \<and> filas n (df_PREDIOS_NUEVOS df))"

section \<open>Properties of the quality classifier\<close>

lemmas clasificar_defs =
  clasificar_calidad_def Let_def marcar_def inicial_def mask_din_invalido_def
  mask_year_invalido_def mask_geo_invalido_def mask_mercado_sin_valor_def
  mask_compraventa_irrisiorio_def mask_valor_extremo_def mask_valor_valido_def
  regla_tipo_predio_def mask_tipo_invalido_def isna_def eq_def lt_def gt_def le_def ge_def

lemma es_mercado_valido_clasificar:
  "es_mercado_valido (clasificar_calidad r) = (Dinamica_Inmobiliaria r = Some 1)"
  by (simp add: clasificar_defs split: option.splits)

text \<open>
  Claim C1. A market record (\<open>Dinamica_Inmobiliaria = 1\<close>) whose \<open>VALOR\<close> is missing or 0
  ends with verdict \<open>ERROR\<close> and reason \<open>MERCADO_SIN_VALOR\<close>: no later rule touches it,
  since the low-value and ceiling rules need a positive value and the zone rule only
  fills an empty reason. A record that is not a market record never gets that reason,
  whatever its value.
\<close>

theorem mercado_sin_valor_contextual:
  "(Dinamica_Inmobiliaria r = Some 1 \<and> (VALOR r = None \<or> VALOR r = Some 0) \<longrightarrow>
      calidad_datos (clasificar_calidad r) = ERROR \<and>
      tipo_error (clasificar_calidad r) = Some MERCADO_SIN_VALOR) \<and>
   (Dinamica_Inmobiliaria r \<noteq> Some 1 \<longrightarrow>
      tipo_error (clasificar_calidad r) \<noteq> Some MERCADO_SIN_VALOR)"
proof (intro conjI impI)
  assume h: "Dinamica_Inmobiliaria r = Some 1 \<and> (VALOR r = None \<or> VALOR r = Some 0)"
  then show "calidad_datos (clasificar_calidad r) = ERROR"
    by (auto simp add: clasificar_defs split: option.splits)
  from h show "tipo_error (clasificar_calidad r) = Some MERCADO_SIN_VALOR"
    by (auto simp add: clasificar_defs split: option.splits)
next
  assume "Dinamica_Inmobiliaria r \<noteq> Some 1"
  then show "tipo_error (clasificar_calidad r) \<noteq> Some MERCADO_SIN_VALOR"
    by (auto simp add: clasificar_defs split: option.splits)
qed

theorem mercado_sin_valor_contextual_witness:
  "calidad_datos (clasificar_calidad
     \<lparr>Dinamica_Inmobiliaria = Some 1, YEAR_RADICA = Some 2020,
      DEPARTAMENTO = Some ''ANTIOQUIA'', MUNICIPIO = Some ''MEDELLIN'',
      NOMBRE_NATUJUR = Some ''COMPRAVENTA'', VALOR = Some 0,
      TIPO_PREDIO_ZONA = Some ''URBANO''\<rparr>) = ERROR \<and>
   tipo_error (clasificar_calidad
     \<lparr>Dinamica_Inmobiliaria = Some 1, YEAR_RADICA = Some 2020,
      DEPARTAMENTO = Some ''ANTIOQUIA'', MUNICIPIO = Some ''MEDELLIN'',
      NOMBRE_NATUJUR = Some ''COMPRAVENTA'', VALOR = Some 0,
      TIPO_PREDIO_ZONA = Some ''URBANO''\<rparr>) = Some MERCADO_SIN_VALOR \<and>
   tipo_error (clasificar_calidad
     \<lparr>Dinamica_Inmobiliaria = Some 0, YEAR_RADICA = Some 2020,
      DEPARTAMENTO = Some ''ANTIOQUIA'', MUNICIPIO = Some ''MEDELLIN'',
      NOMBRE_NATUJUR = Some ''SUCESION'', VALOR = Some 0,
      TIPO_PREDIO_ZONA = Some ''URBANO''\<rparr>) \<noteq> Some MERCADO_SIN_VALOR"
  using mercado_sin_valor_contextual
      [of "\<lparr>Dinamica_Inmobiliaria = Some 1, YEAR_RADICA = Some 2020,
            DEPARTAMENTO = Some ''ANTIOQUIA'', MUNICIPIO = Some ''MEDELLIN'',
            NOMBRE_NATUJUR = Some ''COMPRAVENTA'', VALOR = Some 0,
            TIPO_PREDIO_ZONA = Some ''URBANO''\<rparr>"]
    mercado_sin_valor_contextual
      [of "\<lparr>Dinamica_Inmobiliaria = Some 0, YEAR_RADICA = Some 2020,
            DEPARTAMENTO = Some ''ANTIOQUIA'', MUNICIPIO = Some ''MEDELLIN'',
            NOMBRE_NATUJUR = Some ''SUCESION'', VALOR = Some 0,
            TIPO_PREDIO_ZONA = Some ''URBANO''\<rparr>"]
  by simp

text \<open>
  Claim C4. A record whose \<open>VALOR\<close> is above 10,000,000,000 ends with verdict \<open>ERROR\<close>,
  whatever its market indicator and act name: the ceiling rule runs after the low-value
  warning, and the zone rule changes the verdict only when it is still \<open>OK\<close>.
\<close>

theorem valor_extremo_es_error:
  "VALOR r = Some v \<Longrightarrow> 10000000000 < v \<Longrightarrow> calidad_datos (clasificar_calidad r) = ERROR"
  by (auto simp add: clasificar_defs split: option.splits)

theorem valor_extremo_es_error_witness:
  "(10000000000::real) < 20000000000 \<and>
   calidad_datos (clasificar_calidad
     \<lparr>Dinamica_Inmobiliaria = Some 0, YEAR_RADICA = Some 2020,
      DEPARTAMENTO = Some ''ANTIOQUIA'', MUNICIPIO = Some ''MEDELLIN'',
      NOMBRE_NATUJUR = Some ''COMPRAVENTA'', VALOR = Some 20000000000,
      TIPO_PREDIO_ZONA = Some ''DESCONOCIDO''\<rparr>) = ERROR"
  using valor_extremo_es_error
      [of "\<lparr>Dinamica_Inmobiliaria = Some 0, YEAR_RADICA = Some 2020,
            DEPARTAMENTO = Some ''ANTIOQUIA'', MUNICIPIO = Some ''MEDELLIN'',
            NOMBRE_NATUJUR = Some ''COMPRAVENTA'', VALOR = Some 20000000000,
            TIPO_PREDIO_ZONA = Some ''DESCONOCIDO''\<rparr>" 20000000000]
  by simp

text \<open>
  Claim C3, as stated, fails: a rule whose input is missing is not always taken as
  matching. The act name is read with \<^verbatim>\<open>na=False\<close>, so without it the low-value
  rule does not match; the market record below, with a value of 500,000 and no act
  name, ends \<open>OK\<close> with no reason.
\<close>

theorem campo_faltante_no_siempre_error:
  "isna (NOMBRE_NATUJUR
     \<lparr>Dinamica_Inmobiliaria = Some 1, YEAR_RADICA = Some 2020,
      DEPARTAMENTO = Some ''ANTIOQUIA'', MUNICIPIO = Some ''MEDELLIN'',
      NOMBRE_NATUJUR = None, VALOR = Some 500000,
      TIPO_PREDIO_ZONA = Some ''URBANO''\<rparr>) \<and>
   clasificar_calidad
     \<lparr>Dinamica_Inmobiliaria = Some 1, YEAR_RADICA = Some 2020,
      DEPARTAMENTO = Some ''ANTIOQUIA'', MUNICIPIO = Some ''MEDELLIN'',
      NOMBRE_NATUJUR = None, VALOR = Some 500000,
      TIPO_PREDIO_ZONA = Some ''URBANO''\<rparr> =
   \<lparr>calidad_datos = OK, tipo_error = None, es_mercado_valido = True, valor_valido = False\<rparr>"
  by (simp add: clasificar_defs actos_con_valor_def contains_any_nocase_def
      valores_validos_tipo_def)

text \<open>
  Claim C3, amended. A missing market indicator, a missing \<open>DEPARTAMENTO\<close> or
  \<open>MUNICIPIO\<close>, and a missing value on a market record each give the verdict \<open>ERROR\<close>.
  A missing act name keeps the low-value rule from matching; a missing zone category
  counts as unrecognised, so the verdict is not \<open>OK\<close>; a missing value on a record
  with market indicator 0 matches none of the three value rules.
\<close>

theorem reglas_con_campo_faltante:
  "(isna (Dinamica_Inmobiliaria r) \<or> isna (DEPARTAMENTO r) \<or> isna (MUNICIPIO r) \<or>
    (Dinamica_Inmobiliaria r = Some 1 \<and> isna (VALOR r)) \<longrightarrow>
      calidad_datos (clasificar_calidad r) = ERROR) \<and>
   (isna (NOMBRE_NATUJUR r) \<longrightarrow>
      tipo_error (clasificar_calidad r) \<noteq> Some VALOR_IRRISIORIO) \<and>
   (isna (TIPO_PREDIO_ZONA r) \<longrightarrow> calidad_datos (clasificar_calidad r) \<noteq> OK) \<and>
   (Dinamica_Inmobiliaria r = Some 0 \<and> isna (VALOR r) \<longrightarrow>
      tipo_error (clasificar_calidad r) \<noteq> Some MERCADO_SIN_VALOR \<and>
      tipo_error (clasificar_calidad r) \<noteq> Some VALOR_IRRISIORIO \<and>
      tipo_error (clasificar_calidad r) \<noteq> Some VALOR_EXTREMO_DIGITACION)"
proof (intro conjI impI)
  assume "isna (Dinamica_Inmobiliaria r) \<or> isna (DEPARTAMENTO r) \<or> isna (MUNICIPIO r) \<or>
    (Dinamica_Inmobiliaria r = Some 1 \<and> isna (VALOR r))"
  then show "calidad_datos (clasificar_calidad r) = ERROR"
    by (auto simp add: clasificar_defs split: option.splits)
next
  assume "isna (NOMBRE_NATUJUR r)"
  then show "tipo_error (clasificar_calidad r) \<noteq> Some VALOR_IRRISIORIO"
    by (auto simp add: clasificar_defs actos_con_valor_def contains_any_nocase_def
        split: option.splits)
next
  assume "isna (TIPO_PREDIO_ZONA r)"
  then show "calidad_datos (clasificar_calidad r) \<noteq> OK"
    by (auto simp add: clasificar_defs split: option.splits)
next
  assume h: "Dinamica_Inmobiliaria r = Some 0 \<and> isna (VALOR r)"
  then show "tipo_error (clasificar_calidad r) \<noteq> Some MERCADO_SIN_VALOR"
    by (auto simp add: clasificar_defs split: option.splits)
  from h show "tipo_error (clasificar_calidad r) \<noteq> Some VALOR_IRRISIORIO"
    by (auto simp add: clasificar_defs split: option.splits)
  from h show "tipo_error (clasificar_calidad r) \<noteq> Some VALOR_EXTREMO_DIGITACION"
    by (auto simp add: clasificar_defs split: option.splits)
qed

theorem reglas_con_campo_faltante_witness:
  "isna (DEPARTAMENTO
     \<lparr>Dinamica_Inmobiliaria = Some 0, YEAR_RADICA = Some 2020,
      DEPARTAMENTO = None, MUNICIPIO = Some ''MEDELLIN'',
      NOMBRE_NATUJUR = None, VALOR = None, TIPO_PREDIO_ZONA = None\<rparr>) \<and>
   calidad_datos (clasificar_calidad
     \<lparr>Dinamica_Inmobiliaria = Some 0, YEAR_RADICA = Some 2020,
      DEPARTAMENTO = None, MUNICIPIO = Some ''MEDELLIN'',
      NOMBRE_NATUJUR = None, VALOR = None, TIPO_PREDIO_ZONA = None\<rparr>) = ERROR \<and>
   tipo_error (clasificar_calidad
     \<lparr>Dinamica_Inmobiliaria = Some 0, YEAR_RADICA = Some 2020,
      DEPARTAMENTO = None, MUNICIPIO = Some ''MEDELLIN'',
      NOMBRE_NATUJUR = None, VALOR = None, TIPO_PREDIO_ZONA = None\<rparr>) \<noteq>
     Some VALOR_IRRISIORIO"
  using reglas_con_campo_faltante
      [of "\<lparr>Dinamica_Inmobiliaria = Some 0, YEAR_RADICA = Some 2020,
            DEPARTAMENTO = None, MUNICIPIO = Some ''MEDELLIN'',
            NOMBRE_NATUJUR = None, VALOR = None, TIPO_PREDIO_ZONA = None\<rparr>"]
  by (simp add: isna_def)

text \<open>
  With no zone category and no error rule matching, the verdict is \<open>ADVERTENCIA\<close>.
\<close>

lemma zona_faltante_advertencia:
  assumes "isna (TIPO_PREDIO_ZONA r)"
    and "\<not> mask_din_invalido r" and "\<not> mask_year_invalido r" and "\<not> mask_geo_invalido r"
    and "\<not> (Dinamica_Inmobiliaria r = Some 1 \<and> (isna (VALOR r) \<or> eq (VALOR r) 0))"
    and "\<not> mask_valor_extremo r"
  shows "calidad_datos (clasificar_calidad r) = ADVERTENCIA"
  using assms by (auto simp add: clasificar_defs split: option.splits)

text \<open>
  Claim C5, as stated, fails: \<open>valor_valido\<close> does not look at the verdict. The market
  record below has a value of 5,000,000 and the year 1990: its verdict is \<open>ERROR\<close>
  (\<open>YEAR_INVALIDO\<close>) and its \<open>valor_valido\<close> is True.
\<close>

theorem valor_valido_con_error:
  "calidad_datos (clasificar_calidad
     \<lparr>Dinamica_Inmobiliaria = Some 1, YEAR_RADICA = Some 1990,
      DEPARTAMENTO = Some ''ANTIOQUIA'', MUNICIPIO = Some ''MEDELLIN'',
      NOMBRE_NATUJUR = Some ''COMPRAVENTA'', VALOR = Some 5000000,
      TIPO_PREDIO_ZONA = Some ''URBANO''\<rparr>) = ERROR \<and>
   valor_valido (clasificar_calidad
     \<lparr>Dinamica_Inmobiliaria = Some 1, YEAR_RADICA = Some 1990,
      DEPARTAMENTO = Some ''ANTIOQUIA'', MUNICIPIO = Some ''MEDELLIN'',
      NOMBRE_NATUJUR = Some ''COMPRAVENTA'', VALOR = Some 5000000,
      TIPO_PREDIO_ZONA = Some ''URBANO''\<rparr>)"
  by (simp add: clasificar_defs valores_validos_tipo_def)

text \<open>
  Claim C5, amended. \<open>valor_valido\<close> is True exactly when the record is a market record
  and its value lies in [1,000,000, 10,000,000,000], whatever the verdict. The verdict
  enters in \<^verbatim>\<open>crear_datasets\<close>: a record is in the model-ready partition
  (\<open>mask_ml\<close>) exactly when it is a market record, its value is in that range and its
  verdict is \<open>OK\<close>.
\<close>

theorem valor_valido_sin_veredicto:
  "valor_valido (clasificar_calidad r) =
     (Dinamica_Inmobiliaria r = Some 1 \<and> ge (VALOR r) 1000000 \<and> le (VALOR r) 10000000000) \<and>
   mask_ml (clasificar_calidad r) =
     (Dinamica_Inmobiliaria r = Some 1 \<and> ge (VALOR r) 1000000 \<and> le (VALOR r) 10000000000 \<and>
      calidad_datos (clasificar_calidad r) = OK)"
proof
  show v: "valor_valido (clasificar_calidad r) =
     (Dinamica_Inmobiliaria r = Some 1 \<and> ge (VALOR r) 1000000 \<and> le (VALOR r) 10000000000)"
    by (auto simp add: clasificar_defs split: option.splits)
  show "mask_ml (clasificar_calidad r) =
     (Dinamica_Inmobiliaria r = Some 1 \<and> ge (VALOR r) 1000000 \<and> le (VALOR r) 10000000000 \<and>
      calidad_datos (clasificar_calidad r) = OK)"
    unfolding mask_ml_def v es_mercado_valido_clasificar by blast
qed

theorem valor_valido_sin_veredicto_witness:
  "valor_valido (clasificar_calidad
     \<lparr>Dinamica_Inmobiliaria = Some 1, YEAR_RADICA = Some 2020,
      DEPARTAMENTO = Some ''ANTIOQUIA'', MUNICIPIO = Some ''MEDELLIN'',
      NOMBRE_NATUJUR = Some ''COMPRAVENTA'', VALOR = Some 5000000,
      TIPO_PREDIO_ZONA = Some ''RARO''\<rparr>) \<and>
   \<not> mask_ml (clasificar_calidad
     \<lparr>Dinamica_Inmobiliaria = Some 1, YEAR_RADICA = Some 2020,
      DEPARTAMENTO = Some ''ANTIOQUIA'', MUNICIPIO = Some ''MEDELLIN'',
      NOMBRE_NATUJUR = Some ''COMPRAVENTA'', VALOR = Some 5000000,
      TIPO_PREDIO_ZONA = Some ''RARO''\<rparr>)"
proof -
  have "calidad_datos (clasificar_calidad
     \<lparr>Dinamica_Inmobiliaria = Some 1, YEAR_RADICA = Some 2020,
      DEPARTAMENTO = Some ''ANTIOQUIA'', MUNICIPIO = Some ''MEDELLIN'',
      NOMBRE_NATUJUR = Some ''COMPRAVENTA'', VALOR = Some 5000000,
      TIPO_PREDIO_ZONA = Some ''RARO''\<rparr>) = ADVERTENCIA"
    by (simp add: clasificar_defs valores_validos_tipo_def)
  then show ?thesis
    using valor_valido_sin_veredicto
      [of "\<lparr>Dinamica_Inmobiliaria = Some 1, YEAR_RADICA = Some 2020,
            DEPARTAMENTO = Some ''ANTIOQUIA'', MUNICIPIO = Some ''MEDELLIN'',
            NOMBRE_NATUJUR = Some ''COMPRAVENTA'', VALOR = Some 5000000,
            TIPO_PREDIO_ZONA = Some ''RARO''\<rparr>"]
    by (simp add: ge_def le_def)
qed

section \<open>Properties of the type normalisation\<close>

text \<open>
  Claim C2, evaluated on the code. A categorical cell that holds the float \<open>nan\<close>
  leaves \<^verbatim>\<open>validar_y_tipar\<close> as the text \<open>NAN\<close>, not as a missing value:
  \<^verbatim>\<open>astype(str)\<close> has turned it into text before the sentinel is replaced, and only
  the text \<open>NONE\<close> is replaced. A cell that holds \<open>None\<close>, or the text \<open>none\<close> in any
  case and with white space around it, does become missing.
\<close>

theorem categorica_nan_queda_texto:
  "limpiar_categorica NaN = Some ''NAN'' \<and>
   limpiar_categorica Nulo = None \<and>
   limpiar_categorica (Texto ''NONE'') = None \<and>
   limpiar_categorica (Texto '' none '') = None"
  by (simp add: limpiar_categorica_def strip_def is_space_def upper_def upper_char_def)

section \<open>Properties of the composite key\<close>

lemma card_set_nunique: "card (set xs) = nunique xs"
  by (simp add: nunique_def length_remdups_card_conv)

text \<open>
  Claim C9, as stated, fails: the function does not count or report duplicates. On
  the batch below, whose third row repeats the second, one duplicate-key report is
  asked for; the only number the function reports is 2, the number of distinct keys.
\<close>

theorem duplicado_no_reportado:
  "duplicate_keys (map snd (fst (crear_composite_key
     [\<lparr>DIVIPOLA = Entero 5001, MATRICULA = Texto ''001-1'', NUM_ANOTACION = Entero 1,
       COD_NATUJUR = Texto ''0125'', YEAR_RADICA_crudo = Entero 2020\<rparr>,
      \<lparr>DIVIPOLA = Entero 5001, MATRICULA = Texto ''001-1'', NUM_ANOTACION = Entero 2,
       COD_NATUJUR = Texto ''0125'', YEAR_RADICA_crudo = Entero 2020\<rparr>,
      \<lparr>DIVIPOLA = Entero 5001, MATRICULA = Texto ''001-1'', NUM_ANOTACION = Entero 2,
       COD_NATUJUR = Texto ''0125'', YEAR_RADICA_crudo = Entero 2020\<rparr>]))) = 1 \<and>
   snd (crear_composite_key
     [\<lparr>DIVIPOLA = Entero 5001, MATRICULA = Texto ''001-1'', NUM_ANOTACION = Entero 1,
       COD_NATUJUR = Texto ''0125'', YEAR_RADICA_crudo = Entero 2020\<rparr>,
      \<lparr>DIVIPOLA = Entero 5001, MATRICULA = Texto ''001-1'', NUM_ANOTACION = Entero 2,
       COD_NATUJUR = Texto ''0125'', YEAR_RADICA_crudo = Entero 2020\<rparr>,
      \<lparr>DIVIPOLA = Entero 5001, MATRICULA = Texto ''001-1'', NUM_ANOTACION = Entero 2,
       COD_NATUJUR = Texto ''0125'', YEAR_RADICA_crudo = Entero 2020\<rparr>]) = 2"
  by (simp add: crear_composite_key_def duplicate_keys_def nunique_def transaction_id_def
      str_int_def)

text \<open>
  Claim C9, amended. \<^verbatim>\<open>crear_composite_key\<close> keeps every row, in order, duplicates
  included, and gives each its key; it reports the number of distinct keys only. The
  number of duplicate rows is the number of rows minus that number; the function does
  not compute it.
\<close>

theorem crear_composite_key_conserva:
  "map fst (fst (crear_composite_key df)) = df \<and>
   map snd (fst (crear_composite_key df)) = map transaction_id df \<and>
   snd (crear_composite_key df) = card (set (map transaction_id df)) \<and>
   snd (crear_composite_key df) + duplicate_keys (map transaction_id df) = length df"
proof -
  let ?ids = "map transaction_id df"
  have le: "card (set ?ids) \<le> length ?ids"
    by (rule card_length)
  have out: "crear_composite_key df = (zip df ?ids, nunique ?ids)"
    by (simp add: crear_composite_key_def Let_def)
  have n: "nunique ?ids = card (set ?ids)"
    by (simp only: card_set_nunique)
  have "card (set ?ids) + duplicate_keys ?ids = length df"
    using le unfolding duplicate_keys_def by simp
  then show ?thesis
    unfolding out n by simp
qed

theorem crear_composite_key_conserva_witness:
  "map fst (fst (crear_composite_key
     [\<lparr>DIVIPOLA = Entero 5001, MATRICULA = Texto ''001-1'', NUM_ANOTACION = Entero 2,
       COD_NATUJUR = Texto ''0125'', YEAR_RADICA_crudo = Entero 2020\<rparr>,
      \<lparr>DIVIPOLA = Entero 5001, MATRICULA = Texto ''001-1'', NUM_ANOTACION = Entero 2,
       COD_NATUJUR = Texto ''0125'', YEAR_RADICA_crudo = Entero 2020\<rparr>])) =
     [\<lparr>DIVIPOLA = Entero 5001, MATRICULA = Texto ''001-1'', NUM_ANOTACION = Entero 2,
       COD_NATUJUR = Texto ''0125'', YEAR_RADICA_crudo = Entero 2020\<rparr>,
      \<lparr>DIVIPOLA = Entero 5001, MATRICULA = Texto ''001-1'', NUM_ANOTACION = Entero 2,
       COD_NATUJUR = Texto ''0125'', YEAR_RADICA_crudo = Entero 2020\<rparr>]"
  using crear_composite_key_conserva
      [of "[\<lparr>DIVIPOLA = Entero 5001, MATRICULA = Texto ''001-1'', NUM_ANOTACION = Entero 2,
             COD_NATUJUR = Texto ''0125'', YEAR_RADICA_crudo = Entero 2020\<rparr>,
            \<lparr>DIVIPOLA = Entero 5001, MATRICULA = Texto ''001-1'', NUM_ANOTACION = Entero 2,
             COD_NATUJUR = Texto ''0125'', YEAR_RADICA_crudo = Entero 2020\<rparr>]"]
  by (rule conjunct1)

section \<open>Properties of the excessive-activity flag\<close>

lemma contar_otro: "a \<noteq> k \<Longrightarrow> contar a d k = d k"
  by (simp add: contar_def)

lemma fold_contar:
  "fold contar keys d k =
     (if isna (fst k) \<or> isna (snd k) \<or> registros_mismo_par keys k = 0 then d k
      else Some (registros_mismo_par keys k + (case d k of None \<Rightarrow> 0 | Some n \<Rightarrow> n)))"
proof (induction keys arbitrary: d)
  case Nil
  then show ?case by (simp add: registros_mismo_par_def)
next
  case (Cons a keys)
  show ?case
  proof (cases "a = k")
    case False
    then show ?thesis
      by (simp add: Cons.IH registros_mismo_par_def contar_otro)
  next
    case True
    show ?thesis
    proof (cases "isna (fst k) \<or> isna (snd k)")
      case True
      with \<open>a = k\<close> have "contar a d = d"
        by (simp add: contar_def)
      with True show ?thesis
        by (auto simp add: Cons.IH)
    next
      case False
      with \<open>a = k\<close> have "contar a d k = Some (Suc (case d k of None \<Rightarrow> 0 | Some n \<Rightarrow> n))"
        by (auto simp add: contar_def split: option.splits)
      with False \<open>a = k\<close> show ?thesis
        by (simp add: Cons.IH registros_mismo_par_def)
    qed
  qed
qed

lemma anotaciones_dict_get:
  "(case anotaciones_dict keys k of None \<Rightarrow> 0 | Some c \<Rightarrow> c) =
     (if isna (fst k) \<or> isna (snd k) then 0 else registros_mismo_par keys k)"
  by (simp add: anotaciones_dict_def fold_contar)

lemma registros_mismo_par_replicate: "registros_mismo_par (replicate n k) k = n"
  by (simp add: registros_mismo_par_def)

text \<open>
  Claim C8, as stated, fails on records with a missing key component. In the batch
  below 151 records share the pair (property \<open>050-1\<close>, no year): the count attached to
  the first of them is 0 and it is not flagged.
\<close>

theorem actividad_sin_anio_no_marcada:
  "registros_mismo_par (replicate 151 (Some ''050-1'', None)) (Some ''050-1'', None) = 151 \<and>
   anotaciones_por_anio (replicate 151 (Some ''050-1'', None)) ! 0 = 0 \<and>
   flag_actividad_excesiva (replicate 151 (Some ''050-1'', None)) ! 0 = False"
proof -
  have "anotaciones_por_anio (replicate 151 (Some ''050-1'', None)) ! 0 = 0"
    by (simp add: anotaciones_por_anio_def anotaciones_dict_get isna_def)
  moreover from this
  have "flag_actividad_excesiva (replicate 151 (Some ''050-1'', None)) ! 0 = False"
    by (simp add: flag_actividad_excesiva_def anotaciones_por_anio_def)
  ultimately show ?thesis
    by (simp only: registros_mismo_par_replicate simp_thms)
qed

text \<open>
  Claim C8, amended. For every record of a batch whose property identifier and filing
  year are both present, \<open>anotaciones_por_anio\<close> is the number of records of the batch
  with the same pair, and the excessive-activity flag is True exactly when that number
  is above 150. A record whose identifier or year is missing is counted in no group:
  its \<open>anotaciones_por_anio\<close> is 0 and it is not flagged.
\<close>

theorem actividad_excesiva_umbral:
  "i < length keys \<Longrightarrow>
     (\<not> isna (fst (keys ! i)) \<and> \<not> isna (snd (keys ! i)) \<longrightarrow>
        anotaciones_por_anio keys ! i = registros_mismo_par keys (keys ! i) \<and>
        flag_actividad_excesiva keys ! i = (150 < registros_mismo_par keys (keys ! i))) \<and>
     (isna (fst (keys ! i)) \<or> isna (snd (keys ! i)) \<longrightarrow>
        anotaciones_por_anio keys ! i = 0 \<and> flag_actividad_excesiva keys ! i = False)"
  by (simp add: flag_actividad_excesiva_def anotaciones_por_anio_def anotaciones_dict_get)

text \<open>
  The boundary: 151 records of one property in one year are flagged, 150 are not; a
  record without property identifier is not.
\<close>

theorem actividad_excesiva_umbral_witness:
  "(0::nat) < length (replicate 151 (Some ''050-1'', Some (2021::int))) \<and>
   flag_actividad_excesiva (replicate 151 (Some ''050-1'', Some 2021)) ! 0 = True \<and>
   anotaciones_por_anio (replicate 151 (Some ''050-1'', Some 2021)) ! 0 = 151 \<and>
   flag_actividad_excesiva (replicate 150 (Some ''050-1'', Some 2021)) ! 0 = False \<and>
   anotaciones_por_anio (replicate 150 (Some ''050-1'', Some 2021)) ! 0 = 150 \<and>
   flag_actividad_excesiva [(None, Some 2021)] ! 0 = False \<and>
   anotaciones_por_anio [(None, Some 2021)] ! 0 = 0"
  using actividad_excesiva_umbral [of 0 "replicate 151 (Some ''050-1'', Some 2021)"]
        actividad_excesiva_umbral [of 0 "replicate 150 (Some ''050-1'', Some 2021)"]
        actividad_excesiva_umbral [of 0 "[(None, Some 2021)]"]
  by (simp add: registros_mismo_par_def isna_def)

section \<open>Properties of the ensemble scoring\<close>

lemma np_min_Min: "xs \<noteq> [] \<Longrightarrow> np_min xs = Min (set xs)"
proof (cases xs)
  case Nil
  assume "xs \<noteq> []"
  with Nil show ?thesis by simp
next
  case (Cons a list)
  have "Min (set (a # list)) = fold min list a"
    by (rule Min.set_eq_fold)
  with Cons show ?thesis by simp
qed

lemma np_max_Max: "xs \<noteq> [] \<Longrightarrow> np_max xs = Max (set xs)"
proof (cases xs)
  case Nil
  assume "xs \<noteq> []"
  with Nil show ?thesis by simp
next
  case (Cons a list)
  have "Max (set (a # list)) = fold max list a"
    by (rule Max.set_eq_fold)
  with Cons show ?thesis by simp
qed

lemma np_min_le: "x \<in> set xs \<Longrightarrow> np_min xs \<le> x"
  by (cases "xs = []") (simp_all add: np_min_Min)

lemma np_max_ge: "x \<in> set xs \<Longrightarrow> x \<le> np_max xs"
  by (cases "xs = []") (simp_all add: np_max_Max)

text \<open>
  The guarded normalisation of \<^verbatim>\<open>_normalize_scores\<close> stays in [0, 1] on every
  non-empty array, also when all its entries are equal.
\<close>

lemma normalize_scores_rango:
  assumes "x \<in> set (normalize_scores scores)"
  shows "0 \<le> x \<and> x \<le> 1"
proof -
  define cl where
    "cl = map (\<lambda>x. min (max x (percentile scores 5)) (percentile scores 95)) scores"
  show ?thesis
  proof (cases "np_max cl - np_min cl > 0")
    case True
    with assms obtain c where c: "c \<in> set cl" and x: "x = (c - np_min cl) / (np_max cl - np_min cl)"
      by (auto simp add: normalize_scores_def Let_def cl_def)
    from c have "np_min cl \<le> c" and "c \<le> np_max cl"
      by (simp_all add: np_min_le np_max_ge)
    with True show ?thesis
      unfolding x by (simp add: divide_le_eq)
  next
    case False
    with assms have "x = 0"
      by (auto simp add: normalize_scores_def Let_def cl_def)
    then show ?thesis by simp
  qed
qed

lemma length_normalize_scores: "length (normalize_scores scores) = length scores"
  by (simp add: normalize_scores_def Let_def)

lemma predict_rango:
  assumes "predict fitted X = Inr p" and "s \<in> set (anomaly_scores p)"
  shows "0 \<le> s \<and> s \<le> 1"
proof -
  from assms(1) have
    "anomaly_scores p =
       map2 (\<lambda>a b. 0.6 * a + 0.4 * b) (normalize_scores (map fst X))
         (normalize_scores (map (\<lambda>d. - snd d) X))"
    by (auto simp add: predict_def Let_def split: if_splits)
  with assms(2) obtain a b where
    a: "a \<in> set (normalize_scores (map fst X))" and
    b: "b \<in> set (normalize_scores (map (\<lambda>d. - snd d) X))" and
    s: "s = 0.6 * a + 0.4 * b"
    by (auto dest: set_zip_leftD set_zip_rightD)
  from normalize_scores_rango [OF a] normalize_scores_rango [OF b] show ?thesis
    unfolding s by simp
qed

text \<open>
  On a batch of one record the guarded path gives the score 0, inside [0, 1].
\<close>

lemma predict_un_registro:
  "predict True [(s, t)] =
     Inr \<lparr>anomaly_scores = [0], classifications = [0], if_scores = [0], lof_scores = [0]\<rparr>"
  by (simp add: predict_def normalize_scores_def classify_risk_def Let_def)

text \<open>
  The normalisation written in \<^verbatim>\<open>score_batch\<close> has no such guard: on an array with
  one entry it is NaN.
\<close>

lemma min_max_un_valor: "min_max [s] = [None]"
  by (simp add: min_max_def)

text \<open>
  \<^verbatim>\<open>score_batch\<close> returns for no batch. Unless the transformed array has exactly two
  rows the unpacking of its first statement raises; with two rows \<open>X\<close> is one row, a
  one-dimensional array, which \<^verbatim>\<open>iso_forest.score_samples\<close> refuses.
\<close>

lemma score_batch_ValueError:
  "score_batch iso_forest lof transformed = Inl ValueError"
  by (cases transformed rule: unpack2.cases) (simp_all add: score_batch_def)

text \<open>
  Claim C7, evaluated on the code. On a batch of one record \<^verbatim>\<open>score_batch\<close> raises
  \<open>ValueError\<close> in its first statement: \<^verbatim>\<open>engineer.transform(df)\<close> returns one array
  with one row, which cannot be unpacked into two names. No score is produced for the
  record.
\<close>

theorem score_batch_un_registro:
  "score_batch iso_forest lof [x] = Inl ValueError"
  by (simp add: score_batch_def)

text \<open>
  Claim C6, evaluated on the code. In \<^verbatim>\<open>predict\<close> the isolation-forest output is
  normalised without being inverted. On the batch below the first record is the outlier
  for both models (negative outputs) and the second the inlier: the normalised
  isolation-forest score is 0 for the outlier and 1 for the inlier, and the ensemble
  score of the outlier (0.4) is below that of the inlier (0.6).
\<close>

theorem predict_if_sin_invertir:
  "predict True [(- 0.2, - 0.5), (0.1, 0.3)] =
     Inr \<lparr>anomaly_scores = [0.4, 0.6], classifications = [1, 1],
          if_scores = [0, 1], lof_scores = [1, 0]\<rparr>"
  by (simp add: predict_def normalize_scores_def percentile_def classify_risk_def Let_def)

section \<open>Properties of the feature engineering\<close>

lemma create_features_Inr:
  assumes "df_transaction_id df = Some ids" and "df_VALOR df = Some valor"
    and "df_flag_actividad_excesiva df = Some fa" and "df_flag_geo_discrepancia df = Some fg"
    and "df_total_flags_anomalia df = Some tf" and "df_TIENE_VALOR df = Some tv"
    and "df_COUNT_A df = Some ca" and "df_COUNT_DE df = Some cd"
    and "df_PREDIOS_NUEVOS df = Some pn"
  shows "create_features df =
     Inr \<lparr>transaction_ids = ids,
          columnas = map sanear
            (features_temporales (length ids) df @ features_valor valor @
             features_areas (length ids) @ features_actividad (length ids) df @
             features_geograficas (length ids) df @ features_tipo_predio (length ids) df @
             [(''flag_actividad_excesiva'', map (\<lambda>c. Some (bool_int (fillna False c))) fa),
              (''flag_geo_discrepancia'', map (\<lambda>c. Some (bool_int (fillna False c))) fg),
              (''total_flags_anomalia'', map (\<lambda>c. Some (astype_int (fillna 0 c))) tf),
              (''tiene_valor'', map (\<lambda>c. Some (astype_int (fillna 1 c))) tv)] @
             features_naturaleza (length ids) df @
             [(''count_a'', map (\<lambda>c. Some (astype_int (fillna 0 c))) ca),
              (''count_de'', map (\<lambda>c. Some (astype_int (fillna 0 c))) cd),
              (''predios_nuevos'', map (\<lambda>c. Some (astype_int (fillna 0 c))) pn)])\<rparr>"
proof -
  have fl: "features_flags df =
      Inr [(''flag_actividad_excesiva'', map (\<lambda>c. Some (bool_int (fillna False c))) fa),
           (''flag_geo_discrepancia'', map (\<lambda>c. Some (bool_int (fillna False c))) fg),
           (''total_flags_anomalia'', map (\<lambda>c. Some (astype_int (fillna 0 c))) tf),
           (''tiene_valor'', map (\<lambda>c. Some (astype_int (fillna 1 c))) tv)]"
    using assms by (simp add: features_flags_def get_fillna_flag_def get_fillna_int_def)
  have co: "features_counts df =
      Inr [(''count_a'', map (\<lambda>c. Some (astype_int (fillna 0 c))) ca),
           (''count_de'', map (\<lambda>c. Some (astype_int (fillna 0 c))) cd),
           (''predios_nuevos'', map (\<lambda>c. Some (astype_int (fillna 0 c))) pn)]"
    using assms by (simp add: features_counts_def get_fillna_int_def)
  show ?thesis
    using assms(1,2) by (simp add: create_features_def Let_def fl co)
qed

lemma filas_Some: "filas n (Some cs) = (length cs = n)"
  by (simp add: filas_def)

lemma length_features_temporales:
  "filas n (df_FECHA_RADICA_TEXTO df) \<Longrightarrow> filas n (df_YEAR_RADICA df) \<Longrightarrow>
   c \<in> set (features_temporales n df) \<Longrightarrow> length (snd c) = n"
  by (auto simp add: features_temporales_def constante_def filas_def split: option.splits)

lemma length_features_valor:
  "length valor = n \<Longrightarrow> c \<in> set (features_valor valor) \<Longrightarrow> length (snd c) = n"
  by (auto simp add: features_valor_def Let_def)

lemma length_features_areas: "c \<in> set (features_areas n) \<Longrightarrow> length (snd c) = n"
  by (auto simp add: features_areas_def constante_def)

lemma length_features_actividad:
  "filas n (df_anotaciones_por_anio df) \<Longrightarrow>
   c \<in> set (features_actividad n df) \<Longrightarrow> length (snd c) = n"
  by (auto simp add: features_actividad_def constante_def filas_def Let_def split: option.splits)

lemma length_features_geograficas:
  "filas n (df_TIPO_PREDIO_ZONA df) \<Longrightarrow> filas n (df_CATEGORIA_RURALIDAD df) \<Longrightarrow>
   c \<in> set (features_geograficas n df) \<Longrightarrow> length (snd c) = n"
  by (auto simp add: features_geograficas_def constante_def filas_def split: option.splits)

lemma length_features_tipo_predio:
  "filas n (df_TIPO_PREDIO_ZONA df) \<Longrightarrow>
   c \<in> set (features_tipo_predio n df) \<Longrightarrow> length (snd c) = n"
  by (auto simp add: features_tipo_predio_def constante_def filas_def split: option.splits)

lemma length_features_naturaleza:
  "filas n (df_COD_NATUJUR df) \<Longrightarrow>
   c \<in> set (features_naturaleza n df) \<Longrightarrow> length (snd c) = n"
  by (auto simp add: features_naturaleza_def constante_def filas_def Let_def split: option.splits)

lemma nombres_temporales:
  "map fst (features_temporales n df) =
     (if df_FECHA_RADICA_TEXTO df = None \<and> df_YEAR_RADICA df = None then []
      else [''year'', ''month'', ''quarter'', ''day_of_week'', ''is_weekend'',
            ''days_since_2015''])"
  by (simp add: features_temporales_def constante_def split: option.splits)

lemma nombres_valor:
  "map fst (features_valor valor) =
     [''valor_acto'', ''log_valor'', ''valor_millones'', ''valor_miles_millones'',
      ''valor_bajo'', ''valor_medio'', ''valor_alto'']"
  by (simp add: features_valor_def Let_def)

lemma nombres_areas:
  "map fst (features_areas n) =
     [''area_terreno'', ''area_construida'', ''area_total'', ''log_area_terreno'',
      ''log_area_construida'', ''ratio_construccion'', ''valor_m2_terreno'',
      ''valor_m2_construida'']"
  by (simp add: features_areas_def constante_def)

lemma nombres_actividad:
  "map fst (features_actividad n df) =
     [''anotaciones_por_anio'', ''log_anotaciones'', ''actividad_alta'']"
  by (simp add: features_actividad_def constante_def Let_def split: option.splits)

lemma nombres_geograficas:
  "map fst (features_geograficas n df) = [''es_urbano'', ''es_rural'', ''sin_zona'']"
  by (simp add: features_geograficas_def constante_def split: option.splits)

lemma nombres_tipo_predio:
  "map fst (features_tipo_predio n df) =
     [''predio_nph'', ''predio_matriz'', ''predio_matriz_nph'']"
  by (simp add: features_tipo_predio_def constante_def split: option.splits)

lemma nombres_naturaleza:
  "map fst (features_naturaleza n df) = [''cod_naturaleza_num'', ''cod_naturaleza_grupo'']"
  by (simp add: features_naturaleza_def constante_def Let_def split: option.splits)

lemma fst_sanear: "fst \<circ> sanear = fst"
  by (rule ext) (simp add: sanear_def)

lemma sanear_constante: "sanear (constante n nombre v) = (nombre, replicate n v)"
  by (simp add: sanear_def constante_def fillna_def)

text \<open>The two required columns: without one of them the function raises \<open>KeyError\<close>.\<close>

lemma create_features_KeyError:
  "df_transaction_id df = None \<Longrightarrow> create_features df = Inl (KeyError ''transaction_id'')"
  "df_transaction_id df \<noteq> None \<Longrightarrow> df_VALOR df = None \<Longrightarrow>
     create_features df = Inl (KeyError ''VALOR'')"
  by (auto simp add: create_features_def Let_def)

text \<open>
  Claim C10, as stated, fails: without the column \<open>VALOR\<close> the function raises
  \<open>KeyError\<close>. The batch below has every other column.
\<close>

theorem create_features_sin_valor:
  "create_features
     \<lparr>df_transaction_id = Some [''5001_001-1_1_0125_2020''],
      df_FECHA_RADICA_TEXTO = None,
      df_YEAR_RADICA = Some [Some 2020],
      df_VALOR = None,
      df_anotaciones_por_anio = Some [Some 1],
      df_TIPO_PREDIO_ZONA = Some [Some ''URBANO''],
      df_CATEGORIA_RURALIDAD = Some [Some 1],
      df_flag_actividad_excesiva = Some [Some False],
      df_flag_geo_discrepancia = Some [Some False],
      df_total_flags_anomalia = Some [Some 0],
      df_TIENE_VALOR = Some [Some 1],
      df_COD_NATUJUR = Some [Some 125],
      df_COUNT_A = Some [Some 1],
      df_COUNT_DE = Some [Some 1],
      df_PREDIOS_NUEVOS = Some [Some 0]\<rparr> = Inl (KeyError ''VALOR'')"
  by (simp add: create_features_def)

text \<open>
  Claim C10, amended. On a batch that has \<open>transaction_id\<close>, \<open>VALOR\<close> and the seven
  columns read through \<^verbatim>\<open>df.get\<close>, \<^verbatim>\<open>create_features\<close> raises nothing, whichever of
  the columns \<open>FECHA_RADICA_TEXTO\<close>, \<open>YEAR_RADICA\<close>, \<open>anotaciones_por_anio\<close>,
  \<open>TIPO_PREDIO_ZONA\<close>, \<open>CATEGORIA_RURALIDAD\<close> and \<open>COD_NATUJUR\<close> are absent: it returns
  the keys of the batch and feature columns with distinct names and one row per record.
  The features of an absent column take the fixed defaults of the code: 1 for
  \<open>anotaciones_por_anio\<close> and for \<open>sin_zona\<close>, 0 for the other activity, zone,
  property-type and act-code features; with the year but not the date, month 6,
  quarter 2, day of week 3 and weekend 0; with neither, no temporal feature at all.
\<close>

theorem create_features_columnas_opcionales:
  assumes ids: "df_transaction_id df = Some ids"
    and valor: "df_VALOR df \<noteq> None"
    and fa: "df_flag_actividad_excesiva df \<noteq> None"
    and fg: "df_flag_geo_discrepancia df \<noteq> None"
    and tf: "df_total_flags_anomalia df \<noteq> None"
    and tv: "df_TIENE_VALOR df \<noteq> None"
    and ca: "df_COUNT_A df \<noteq> None"
    and cd: "df_COUNT_DE df \<noteq> None"
    and pn: "df_PREDIOS_NUEVOS df \<noteq> None"
    and bf: "bien_formado (length ids) df"
  shows "\<exists>f. create_features df = Inr f \<and> transaction_ids f = ids \<and>
     (\<forall>c \<in> set (columnas f). length (snd c) = length ids) \<and>
     distinct (map fst (columnas f)) \<and>
     (df_anotaciones_por_anio df = None \<longrightarrow>
        (''anotaciones_por_anio'', replicate (length ids) 1) \<in> set (columnas f) \<and>
        (''log_anotaciones'', replicate (length ids) 0) \<in> set (columnas f) \<and>
        (''actividad_alta'', replicate (length ids) 0) \<in> set (columnas f)) \<and>
     (df_TIPO_PREDIO_ZONA df = None \<and> df_CATEGORIA_RURALIDAD df = None \<longrightarrow>
        (''es_urbano'', replicate (length ids) 0) \<in> set (columnas f) \<and>
        (''es_rural'', replicate (length ids) 0) \<in> set (columnas f) \<and>
        (''sin_zona'', replicate (length ids) 1) \<in> set (columnas f)) \<and>
     (df_TIPO_PREDIO_ZONA df = None \<longrightarrow>
        (''predio_nph'', replicate (length ids) 0) \<in> set (columnas f) \<and>
        (''predio_matriz'', replicate (length ids) 0) \<in> set (columnas f) \<and>
        (''predio_matriz_nph'', replicate (length ids) 0) \<in> set (columnas f)) \<and>
     (df_COD_NATUJUR df = None \<longrightarrow>
        (''cod_naturaleza_num'', replicate (length ids) 0) \<in> set (columnas f) \<and>
        (''cod_naturaleza_grupo'', replicate (length ids) 0) \<in> set (columnas f)) \<and>
     (df_FECHA_RADICA_TEXTO df = None \<and> df_YEAR_RADICA df \<noteq> None \<longrightarrow>
        (''month'', replicate (length ids) 6) \<in> set (columnas f) \<and>
        (''quarter'', replicate (length ids) 2) \<in> set (columnas f) \<and>
        (''day_of_week'', replicate (length ids) 3) \<in> set (columnas f) \<and>
        (''is_weekend'', replicate (length ids) 0) \<in> set (columnas f)) \<and>
     (df_FECHA_RADICA_TEXTO df = None \<and> df_YEAR_RADICA df = None \<longrightarrow>
        set [''year'', ''month'', ''quarter'', ''day_of_week'', ''is_weekend'',
             ''days_since_2015''] \<inter> set (map fst (columnas f)) = {})"
proof -
  let ?n = "length ids"
  from valor fa fg tf tv ca cd pn obtain v a g t h x y z where
    cols: "df_VALOR df = Some v" "df_flag_actividad_excesiva df = Some a"
      "df_flag_geo_discrepancia df = Some g" "df_total_flags_anomalia df = Some t"
      "df_TIENE_VALOR df = Some h" "df_COUNT_A df = Some x" "df_COUNT_DE df = Some y"
      "df_PREDIOS_NUEVOS df = Some z"
    by auto
  define F where "F =
     [(''flag_actividad_excesiva'', map (\<lambda>c. Some (bool_int (fillna False c))) a),
      (''flag_geo_discrepancia'', map (\<lambda>c. Some (bool_int (fillna False c))) g),
      (''total_flags_anomalia'', map (\<lambda>c. Some (astype_int (fillna 0 c))) t),
      (''tiene_valor'', map (\<lambda>c. Some (astype_int (fillna 1 c))) h)]"
  define C where "C =
     [(''count_a'', map (\<lambda>c. Some (astype_int (fillna 0 c))) x),
      (''count_de'', map (\<lambda>c. Some (astype_int (fillna 0 c))) y),
      (''predios_nuevos'', map (\<lambda>c. Some (astype_int (fillna 0 c))) z)]"
  define L where "L = features_temporales ?n df @ features_valor v @ features_areas ?n @
      features_actividad ?n df @ features_geograficas ?n df @ features_tipo_predio ?n df @
      F @ features_naturaleza ?n df @ C"
  define f where "f = \<lparr>transaction_ids = ids, columnas = map sanear L\<rparr>"
  have res: "create_features df = Inr f"
    unfolding f_def L_def F_def C_def
    by (rule create_features_Inr [OF ids cols])
  have cf: "columnas f = map sanear L" and tid: "transaction_ids f = ids"
    by (simp_all add: f_def)
  have set_cf: "set (columnas f) = sanear ` set L"
    by (simp add: cf)
  from bf cols ids have len:
    "length v = ?n" "length a = ?n" "length g = ?n" "length t = ?n" "length h = ?n"
    "length x = ?n" "length y = ?n" "length z = ?n"
    "filas ?n (df_FECHA_RADICA_TEXTO df)" "filas ?n (df_YEAR_RADICA df)"
    "filas ?n (df_anotaciones_por_anio df)" "filas ?n (df_TIPO_PREDIO_ZONA df)"
    "filas ?n (df_CATEGORIA_RURALIDAD df)" "filas ?n (df_COD_NATUJUR df)"
    by (simp_all add: bien_formado_def filas_Some)
  have lenL: "length (snd c) = ?n" if "c \<in> set L" for c
  proof -
    from that consider
        "c \<in> set (features_temporales ?n df)" | "c \<in> set (features_valor v)"
      | "c \<in> set (features_areas ?n)" | "c \<in> set (features_actividad ?n df)"
      | "c \<in> set (features_geograficas ?n df)" | "c \<in> set (features_tipo_predio ?n df)"
      | "c \<in> set F" | "c \<in> set (features_naturaleza ?n df)" | "c \<in> set C"
      unfolding L_def by auto
    then show ?thesis
    proof cases
      case 1 then show ?thesis using len by (simp add: length_features_temporales)
    next
      case 2 then show ?thesis using len by (simp add: length_features_valor)
    next
      case 3 then show ?thesis by (simp add: length_features_areas)
    next
      case 4 then show ?thesis using len by (simp add: length_features_actividad)
    next
      case 5 then show ?thesis using len by (simp add: length_features_geograficas)
    next
      case 6 then show ?thesis using len by (simp add: length_features_tipo_predio)
    next
      case 7 then show ?thesis using len by (auto simp add: F_def)
    next
      case 8 then show ?thesis using len by (simp add: length_features_naturaleza)
    next
      case 9 then show ?thesis using len by (auto simp add: C_def)
    qed
  qed
  have c1: "\<forall>c \<in> set (columnas f). length (snd c) = ?n"
    using lenL by (auto simp add: set_cf sanear_def)
  have nombres: "map fst (columnas f) = map fst (features_temporales ?n df) @
      [''valor_acto'', ''log_valor'', ''valor_millones'', ''valor_miles_millones'',
       ''valor_bajo'', ''valor_medio'', ''valor_alto'',
       ''area_terreno'', ''area_construida'', ''area_total'', ''log_area_terreno'',
       ''log_area_construida'', ''ratio_construccion'', ''valor_m2_terreno'',
       ''valor_m2_construida'',
       ''anotaciones_por_anio'', ''log_anotaciones'', ''actividad_alta'',
       ''es_urbano'', ''es_rural'', ''sin_zona'',
       ''predio_nph'', ''predio_matriz'', ''predio_matriz_nph'',
       ''flag_actividad_excesiva'', ''flag_geo_discrepancia'', ''total_flags_anomalia'',
       ''tiene_valor'',
       ''cod_naturaleza_num'', ''cod_naturaleza_grupo'',
       ''count_a'', ''count_de'', ''predios_nuevos'']"
    unfolding cf map_map fst_sanear L_def
    by (simp add: nombres_valor nombres_areas nombres_actividad nombres_geograficas
        nombres_tipo_predio nombres_naturaleza F_def C_def)
  have c2: "distinct (map fst (columnas f))"
    unfolding nombres nombres_temporales by simp
  have mem: "sanear c \<in> set (columnas f)" if "c \<in> set L" for c
    using that by (simp add: set_cf)
  have c3: "(''anotaciones_por_anio'', replicate ?n 1) \<in> set (columnas f) \<and>
        (''log_anotaciones'', replicate ?n 0) \<in> set (columnas f) \<and>
        (''actividad_alta'', replicate ?n 0) \<in> set (columnas f)"
    if "df_anotaciones_por_anio df = None"
  proof -
    have "set (features_actividad ?n df) \<subseteq> set L"
      unfolding L_def by auto
    moreover have "features_actividad ?n df =
        [constante ?n ''anotaciones_por_anio'' 1, constante ?n ''log_anotaciones'' 0,
         constante ?n ''actividad_alta'' 0]"
      using that by (simp add: features_actividad_def)
    ultimately have "constante ?n ''anotaciones_por_anio'' 1 \<in> set L"
      "constante ?n ''log_anotaciones'' 0 \<in> set L" "constante ?n ''actividad_alta'' 0 \<in> set L"
      by auto
    from this [THEN mem] show ?thesis
      by (simp add: sanear_constante)
  qed
  have c4: "(''es_urbano'', replicate ?n 0) \<in> set (columnas f) \<and>
        (''es_rural'', replicate ?n 0) \<in> set (columnas f) \<and>
        (''sin_zona'', replicate ?n 1) \<in> set (columnas f)"
    if "df_TIPO_PREDIO_ZONA df = None \<and> df_CATEGORIA_RURALIDAD df = None"
  proof -
    have "set (features_geograficas ?n df) \<subseteq> set L"
      unfolding L_def by auto
    moreover have "features_geograficas ?n df =
        [constante ?n ''es_urbano'' 0, constante ?n ''es_rural'' 0,
         constante ?n ''sin_zona'' 1]"
      using that by (simp add: features_geograficas_def)
    ultimately have "constante ?n ''es_urbano'' 0 \<in> set L"
      "constante ?n ''es_rural'' 0 \<in> set L" "constante ?n ''sin_zona'' 1 \<in> set L"
      by auto
    from this [THEN mem] show ?thesis
      by (simp add: sanear_constante)
  qed
  have c5: "(''predio_nph'', replicate ?n 0) \<in> set (columnas f) \<and>
        (''predio_matriz'', replicate ?n 0) \<in> set (columnas f) \<and>
        (''predio_matriz_nph'', replicate ?n 0) \<in> set (columnas f)"
    if "df_TIPO_PREDIO_ZONA df = None"
  proof -
    have "set (features_tipo_predio ?n df) \<subseteq> set L"
      unfolding L_def by auto
    moreover have "features_tipo_predio ?n df =
        [constante ?n ''predio_nph'' 0, constante ?n ''predio_matriz'' 0,
         constante ?n ''predio_matriz_nph'' 0]"
      using that by (simp add: features_tipo_predio_def)
    ultimately have "constante ?n ''predio_nph'' 0 \<in> set L"
      "constante ?n ''predio_matriz'' 0 \<in> set L" "constante ?n ''predio_matriz_nph'' 0 \<in> set L"
      by auto
    from this [THEN mem] show ?thesis
      by (simp add: sanear_constante)
  qed
  have c6: "(''cod_naturaleza_num'', replicate ?n 0) \<in> set (columnas f) \<and>
        (''cod_naturaleza_grupo'', replicate ?n 0) \<in> set (columnas f)"
    if "df_COD_NATUJUR df = None"
  proof -
    have "set (features_naturaleza ?n df) \<subseteq> set L"
      unfolding L_def by auto
    moreover have "features_naturaleza ?n df =
        [constante ?n ''cod_naturaleza_num'' 0, constante ?n ''cod_naturaleza_grupo'' 0]"
      using that by (simp add: features_naturaleza_def)
    ultimately have "constante ?n ''cod_naturaleza_num'' 0 \<in> set L"
      "constante ?n ''cod_naturaleza_grupo'' 0 \<in> set L"
      by auto
    from this [THEN mem] show ?thesis
      by (simp add: sanear_constante)
  qed
  have c7: "(''month'', replicate ?n 6) \<in> set (columnas f) \<and>
        (''quarter'', replicate ?n 2) \<in> set (columnas f) \<and>
        (''day_of_week'', replicate ?n 3) \<in> set (columnas f) \<and>
        (''is_weekend'', replicate ?n 0) \<in> set (columnas f)"
    if "df_FECHA_RADICA_TEXTO df = None \<and> df_YEAR_RADICA df \<noteq> None"
  proof -
    from that obtain yr where yr: "df_YEAR_RADICA df = Some yr" by auto
    have "set (features_temporales ?n df) \<subseteq> set L"
      unfolding L_def by auto
    moreover have "features_temporales ?n df =
        [(''year'', yr), constante ?n ''month'' 6, constante ?n ''quarter'' 2,
         constante ?n ''day_of_week'' 3, constante ?n ''is_weekend'' 0,
         (''days_since_2015'', map (map_option (\<lambda>y. (y - 2015) * 365)) yr)]"
      using that yr by (simp add: features_temporales_def)
    ultimately have "constante ?n ''month'' 6 \<in> set L" "constante ?n ''quarter'' 2 \<in> set L"
      "constante ?n ''day_of_week'' 3 \<in> set L" "constante ?n ''is_weekend'' 0 \<in> set L"
      by auto
    from this [THEN mem] show ?thesis
      by (simp add: sanear_constante)
  qed
  have c8: "set [''year'', ''month'', ''quarter'', ''day_of_week'', ''is_weekend'',
             ''days_since_2015''] \<inter> set (map fst (columnas f)) = {}"
    if "df_FECHA_RADICA_TEXTO df = None \<and> df_YEAR_RADICA df = None"
    unfolding nombres nombres_temporales using that by simp
  show ?thesis
    by (intro exI [of _ f] conjI;
        (rule res tid c1 c2 | (rule impI, erule c3 c4 c5 c6 c7 c8)))
qed

theorem create_features_columnas_opcionales_witness:
  "bien_formado 2
     \<lparr>df_transaction_id = Some [''5001_001-1_1_0125_2020'', ''5001_001-1_2_0125_2020''],
      df_FECHA_RADICA_TEXTO = None, df_YEAR_RADICA = None,
      df_VALOR = Some [Some 0, None],
      df_anotaciones_por_anio = None, df_TIPO_PREDIO_ZONA = None,
      df_CATEGORIA_RURALIDAD = None,
      df_flag_actividad_excesiva = Some [Some False, Some True],
      df_flag_geo_discrepancia = Some [Some False, None],
      df_total_flags_anomalia = Some [Some 0, Some 1],
      df_TIENE_VALOR = Some [Some 1, None],
      df_COD_NATUJUR = None,
      df_COUNT_A = Some [Some 1, None], df_COUNT_DE = Some [Some 2, Some 1],
      df_PREDIOS_NUEVOS = Some [Some 0, Some 0]\<rparr> \<and>
   (\<exists>f. create_features
     \<lparr>df_transaction_id = Some [''5001_001-1_1_0125_2020'', ''5001_001-1_2_0125_2020''],
      df_FECHA_RADICA_TEXTO = None, df_YEAR_RADICA = None,
      df_VALOR = Some [Some 0, None],
      df_anotaciones_por_anio = None, df_TIPO_PREDIO_ZONA = None,
      df_CATEGORIA_RURALIDAD = None,
      df_flag_actividad_excesiva = Some [Some False, Some True],
      df_flag_geo_discrepancia = Some [Some False, None],
      df_total_flags_anomalia = Some [Some 0, Some 1],
      df_TIENE_VALOR = Some [Some 1, None],
      df_COD_NATUJUR = None,
      df_COUNT_A = Some [Some 1, None], df_COUNT_DE = Some [Some 2, Some 1],
      df_PREDIOS_NUEVOS = Some [Some 0, Some 0]\<rparr> = Inr f \<and>
      transaction_ids f = [''5001_001-1_1_0125_2020'', ''5001_001-1_2_0125_2020''] \<and>
      (''anotaciones_por_anio'', [1, 1]) \<in> set (columnas f) \<and>
      (''sin_zona'', [1, 1]) \<in> set (columnas f) \<and>
      (''cod_naturaleza_num'', [0, 0]) \<in> set (columnas f) \<and>
      ''year'' \<notin> set (map fst (columnas f)))"
  using create_features_columnas_opcionales
      [of "\<lparr>df_transaction_id = Some [''5001_001-1_1_0125_2020'', ''5001_001-1_2_0125_2020''],
            df_FECHA_RADICA_TEXTO = None, df_YEAR_RADICA = None,
            df_VALOR = Some [Some 0, None],
            df_anotaciones_por_anio = None, df_TIPO_PREDIO_ZONA = None,
            df_CATEGORIA_RURALIDAD = None,
            df_flag_actividad_excesiva = Some [Some False, Some True],
            df_flag_geo_discrepancia = Some [Some False, None],
            df_total_flags_anomalia = Some [Some 0, Some 1],
            df_TIENE_VALOR = Some [Some 1, None],
            df_COD_NATUJUR = None,
            df_COUNT_A = Some [Some 1, None], df_COUNT_DE = Some [Some 2, Some 1],
            df_PREDIOS_NUEVOS = Some [Some 0, Some 0]\<rparr>"
          "[''5001_001-1_1_0125_2020'', ''5001_001-1_2_0125_2020'']"]
  by (auto simp add: bien_formado_def filas_def)

end
